theory Spec2Isabelle
  imports Main
begin

section \<open>Calendar days and the timeline (utils/dateUtils.js)\<close>

text \<open>
  A day key of the scheduler is a string \<^verbatim>\<open>YYYY-MM-DD\<close>. The model names a day by
  its day number (days since 1970-01-01): on well-formed keys the string order
  \<^verbatim>\<open><\<close> of JavaScript is the order of the day numbers, and \<^verbatim>\<open>===\<close> is equality.
  \<^verbatim>\<open>new Date(key).getTime()\<close> is midnight UTC of that day in milliseconds, and
  \<^verbatim>\<open>new Date(ms).toISOString().split('T')[0]\<close> is the UTC day that holds \<open>ms\<close>.
\<close>

type_synonym day = int

definition msPerDay :: int where
  "msPerDay = 24 * 60 * 60 * 1000"

definition getTime :: "day \<Rightarrow> int" where
  "getTime d = d * msPerDay"

definition toISODate :: "int \<Rightarrow> day" where
  "toISODate ms = ms div msPerDay"

text \<open>\<^verbatim>\<open>dayjs(d).subtract(1, 'day').format('YYYY-MM-DD')\<close>\<close>

definition dayjs_subtract_day :: "day \<Rightarrow> day" where
  "dayjs_subtract_day d = d - 1"

text \<open>
  \<^verbatim>\<open>generateDateRange(days, startDate)\<close>: the \<^verbatim>\<open>for\<close> loop pushes
  \<^verbatim>\<open>start.add(i, 'day')\<close> for \<open>i = 0, ..., days - 1\<close>. The caller passes the start
  day (today, when the source's \<^verbatim>\<open>startDate\<close> is null).
\<close>

function generateDateRange_loop :: "nat \<Rightarrow> nat \<Rightarrow> day \<Rightarrow> day list \<Rightarrow> day list" where
  "generateDateRange_loop i days start dates =
     (if i < days then generateDateRange_loop (Suc i) days start (dates @ [start + int i])
      else dates)"
  by pat_completeness auto
termination
  by (relation "measure (\<lambda>(i, days, start, dates). days - i)") auto

declare generateDateRange_loop.simps [simp del]

definition generateDateRange :: "nat \<Rightarrow> day \<Rightarrow> day list" where
  "generateDateRange days start = generateDateRange_loop 0 days start []"

text \<open>
  \<^verbatim>\<open>Array.prototype.findIndex\<close> and \<^verbatim>\<open>indexOf\<close>: the first index whose element
  passes, or \<open>-1\<close>.
\<close>

fun findIndex :: "('a \<Rightarrow> bool) \<Rightarrow> 'a list \<Rightarrow> int" where
  "findIndex P [] = - 1"
| "findIndex P (x # xs) =
     (if P x then 0
      else (let r = findIndex P xs in if r = - 1 then - 1 else r + 1))"

definition getDateIndex :: "day \<Rightarrow> day list \<Rightarrow> int" where
  "getDateIndex dateStr dates = findIndex (\<lambda>d. d = dateStr) dates"

definition indexOf :: "'a list \<Rightarrow> 'a \<Rightarrow> int" where
  "indexOf xs x = findIndex (\<lambda>y. y = x) xs"

text \<open>
  \<^verbatim>\<open>xs[i]\<close> in JavaScript: \<^verbatim>\<open>undefined\<close> (here \<open>None\<close>) out of range. A comparison
  \<^verbatim>\<open><\<close> or \<^verbatim>\<open>>\<close> of a string with \<^verbatim>\<open>undefined\<close> is false.
\<close>

definition at_index :: "'a list \<Rightarrow> int \<Rightarrow> 'a option" where
  "at_index xs i = (if 0 \<le> i \<and> i < int (length xs) then Some (xs ! nat i) else None)"

fun js_lt :: "day \<Rightarrow> day option \<Rightarrow> bool" where
  "js_lt a None = False"
| "js_lt a (Some b) = (a < b)"

fun js_gt :: "day \<Rightarrow> day option \<Rightarrow> bool" where
  "js_gt a None = False"
| "js_gt a (Some b) = (a > b)"

section \<open>Bookings and their layout\<close>

text \<open>
  A selection is \<^verbatim>\<open>{ resourceId, startDate, endDate }\<close>; a booking carries the same
  three fields and its identifiers (the display fields play no part in layout).
\<close>

record selection =
  resourceId :: string
  startDate :: day
  endDate :: day

record booking = selection +
  id_bk :: string
  booking_id :: nat

record layout =
  visibleStartIndex :: int
  visibleEndIndex :: int
  left :: int
  span :: int
  width :: int

text \<open>\<^verbatim>\<open>BookingBlock\<close> of components/BookingBlock.jsx (lines 130-151): \<open>None\<close> is \<^verbatim>\<open>return null\<close>.\<close>

definition BookingBlock :: "day list \<Rightarrow> int \<Rightarrow> booking \<Rightarrow> layout option" where
  "BookingBlock dates cellWidth b =
     (let displayEndDate = dayjs_subtract_day (endDate b);
          startIndex = getDateIndex (startDate b) dates;
          endIndex = getDateIndex displayEndDate dates;
          bookingStartsBeforeRange = (startIndex = - 1 \<and> js_lt (startDate b) (at_index dates 0));
          bookingEndsAfterRange =
            (endIndex = - 1 \<and> js_gt displayEndDate (at_index dates (int (length dates) - 1)));
          bookingSpansEntireRange = (bookingStartsBeforeRange \<and> bookingEndsAfterRange);
          bookingOverlapsRange = (startIndex \<noteq> - 1 \<or> endIndex \<noteq> - 1 \<or> bookingSpansEntireRange)
      in if \<not> bookingOverlapsRange then None
         else
           (let vStart = max 0 (if startIndex = - 1 then 0 else startIndex);
                vEnd = min (int (length dates) - 1)
                         (if endIndex = - 1 then int (length dates) - 1 else endIndex)
            in Some \<lparr>visibleStartIndex = vStart, visibleEndIndex = vEnd,
                      left = vStart * cellWidth,
                      span = vEnd - vStart + 1,
                      width = (vEnd - vStart + 1) * cellWidth\<rparr>))"

text \<open>
  The earlier \<^verbatim>\<open>BookingBlock\<close> (the unnamed source file part_003, lines 24-36, the
  same text that components/BookingBlock.jsx keeps commented out): it looks the
  checkout day itself up and clips with bare \<^verbatim>\<open>Math.max\<close>/\<^verbatim>\<open>Math.min\<close>.
\<close>

definition BookingBlock_legacy :: "day list \<Rightarrow> int \<Rightarrow> booking \<Rightarrow> layout option" where
  "BookingBlock_legacy dates cellWidth b =
     (let startIndex = getDateIndex (startDate b) dates;
          endIndex = getDateIndex (endDate b) dates
      in if startIndex = - 1 \<and> endIndex = - 1 then None
         else
           (let vStart = max 0 startIndex;
                vEnd = min (int (length dates) - 1) endIndex
            in Some \<lparr>visibleStartIndex = vStart, visibleEndIndex = vEnd,
                      left = vStart * cellWidth,
                      span = vEnd - vStart + 1,
                      width = (vEnd - vStart + 1) * cellWidth\<rparr>))"

text \<open>
  The grid path of components/VirtualizedScheduler.jsx. \<^verbatim>\<open>bookingOverlapsRange\<close> is
  the second \<^verbatim>\<open>filter\<close> of \<^verbatim>\<open>cellRenderer\<close> (lines 201-216); \<^verbatim>\<open>GridBookingCell\<close>
  repeats it and computes the width of the block, which is drawn from the cell
  that \<^verbatim>\<open>cellRenderer\<close> picks (lines 217-222): the first visible day of the booking.
\<close>

definition gridDisplayEndDate :: "booking \<Rightarrow> day" where
  "gridDisplayEndDate b = toISODate (getTime (endDate b) - 24 * 60 * 60 * 1000)"

definition bookingOverlapsRange :: "day list \<Rightarrow> booking \<Rightarrow> bool" where
  "bookingOverlapsRange dates b =
     (let displayEndDate = gridDisplayEndDate b;
          startIdx = indexOf dates (startDate b);
          endIdx = indexOf dates displayEndDate;
          bookingStartsBeforeRange = (startIdx = - 1 \<and> js_lt (startDate b) (at_index dates 0));
          bookingEndsAfterRange =
            (endIdx = - 1 \<and> js_gt displayEndDate (at_index dates (int (length dates) - 1)));
          bookingSpansEntireRange = (bookingStartsBeforeRange \<and> bookingEndsAfterRange)
      in startIdx \<noteq> - 1 \<or> endIdx \<noteq> - 1 \<or> bookingSpansEntireRange)"

record grid_layout =
  visibleStartIdx :: int
  visibleEndIdx :: int
  duration :: int
  width_grid :: int

definition GridBookingCell :: "day list \<Rightarrow> int \<Rightarrow> booking \<Rightarrow> grid_layout option" where
  "GridBookingCell dates cellWidth b =
     (if \<not> bookingOverlapsRange dates b then None
      else
        (let startIdx = indexOf dates (startDate b);
             endIdx = indexOf dates (gridDisplayEndDate b);
             vStart = max 0 (if startIdx = - 1 then 0 else startIdx);
             vEnd = min (int (length dates) - 1)
                      (if endIdx = - 1 then int (length dates) - 1 else endIdx)
         in Some \<lparr>visibleStartIdx = vStart, visibleEndIdx = vEnd,
                   duration = vEnd - vStart + 1,
                   width_grid = (vEnd - vStart + 1) * cellWidth\<rparr>))"

text \<open>
  The bookings that \<^verbatim>\<open>cellRenderer\<close> draws in the timeline cell of row \<open>rowId\<close> and
  date column \<open>col\<close> (\<^verbatim>\<open>date = dates[columnIndex - 1]\<close>, so \<open>col = columnIndex - 1\<close>).
\<close>

definition cellRenderer_bookings :: "day list \<Rightarrow> booking list \<Rightarrow> string \<Rightarrow> int \<Rightarrow> booking list" where
  "cellRenderer_bookings dates bookings rowId col =
     filter (\<lambda>b.
        (let startIdx = indexOf dates (startDate b);
             visibleStartIdx = max 0 (if startIdx = - 1 then 0 else startIdx)
         in at_index dates visibleStartIdx = at_index dates col))
       (filter (bookingOverlapsRange dates)
          (filter (\<lambda>b. resourceId b = rowId) bookings))"

section \<open>Resources, filters and the flattened row list\<close>

text \<open>
  A resource (leaf) is \<^verbatim>\<open>{ id, name }\<close>; a group has the same two fields, the
  \<^verbatim>\<open>expanded\<close> flag and its ordered children (present in every group of the input
  contract, so \<^verbatim>\<open>parent.children || []\<close> is the field itself).
\<close>

record resource =
  id_res :: string
  name :: string

record resource_group = resource +
  expanded :: bool
  children :: "resource list"

text \<open>
  A row of the flattened list: \<^verbatim>\<open>{ ...parent, type: 'parent' }\<close> or
  \<^verbatim>\<open>{ ...child, parentId: parent.id, type: 'child' }\<close>.
\<close>

datatype row = ParentRow resource_group | ChildRow resource string


text \<open>
  Strings: \<^verbatim>\<open>toLowerCase\<close> on the ASCII letters, \<^verbatim>\<open>String.prototype.includes\<close>
  (a contiguous substring), and \<^verbatim>\<open>Number.prototype.toString\<close> on a non-negative
  integer (decimal digits).
\<close>

definition lowerChar :: "char \<Rightarrow> char" where
  "lowerChar c =
     (case map_of (zip ''ABCDEFGHIJKLMNOPQRSTUVWXYZ'' ''abcdefghijklmnopqrstuvwxyz'') c of
        Some l \<Rightarrow> l
      | None \<Rightarrow> c)"

definition toLowerCase :: "string \<Rightarrow> string" where
  "toLowerCase s = map lowerChar s"

fun startsWith :: "'a list \<Rightarrow> 'a list \<Rightarrow> bool" where
  "startsWith s [] = True"
| "startsWith [] (c # cs) = False"
| "startsWith (x # xs) (c # cs) = (x = c \<and> startsWith xs cs)"

fun includes_js :: "'a list \<Rightarrow> 'a list \<Rightarrow> bool" where
  "includes_js [] sub = (sub = [])"
| "includes_js (x # xs) sub = (startsWith (x # xs) sub \<or> includes_js xs sub)"

definition digitChar :: "nat \<Rightarrow> char" where
  "digitChar d = ''0123456789'' ! d"

function toString :: "nat \<Rightarrow> string" where
  "toString n = (if n < 10 then [digitChar n] else toString (n div 10) @ [digitChar (n mod 10)])"
  by pat_completeness auto
termination
  by (relation "measure (\<lambda>n. n)") auto

declare toString.simps [simp del]

text \<open>
  \<^verbatim>\<open>visibleRows\<close> of components/VirtualizedScheduler.jsx (lines 32-70). A filter
  string is truthy when it is not empty.
\<close>

definition visibleRows ::
    "resource_group list \<Rightarrow> booking list \<Rightarrow> string \<Rightarrow> string \<Rightarrow> row list" where
  "visibleRows resources bookings searchTerm selectedBookingId =
     (let filteredResources =
            (if selectedBookingId \<noteq> [] then
               (let matchingBookings =
                      filter (\<lambda>b. includes_js (toString (booking_id b)) selectedBookingId) bookings;
                    matchingResourceIds = set (map resourceId matchingBookings)
                in filter (\<lambda>parent. length (children parent) > 0)
                     (map (\<lambda>parent. parent\<lparr>expanded := True,
                              children := filter (\<lambda>child. id_res child \<in> matchingResourceIds)
                                            (children parent)\<rparr>)
                        resources))
             else resources);
          filteredResources =
            (if searchTerm \<noteq> [] then
               filter (\<lambda>parent.
                  (let parentMatches =
                         includes_js (toLowerCase (name parent)) (toLowerCase searchTerm);
                       childMatches =
                         list_ex (\<lambda>child. includes_js (toLowerCase (name child)) (toLowerCase searchTerm))
                           (children parent)
                   in parentMatches \<or> childMatches))
                 filteredResources
             else filteredResources)
      in concat (map (\<lambda>parent.
           if \<not> expanded parent then [ParentRow parent]
           else ParentRow parent #
                map (\<lambda>child. ChildRow child (id_res parent))
                  (filter (\<lambda>child. \<not> (searchTerm \<noteq> []) \<or>
                       includes_js (toLowerCase (name child)) (toLowerCase searchTerm))
                     (children parent)))
         filteredResources))"

text \<open>
  The flattener as section 4.2 of the specification words it: for each group in
  order, emit a parent row; if the group is not expanded, nothing further;
  otherwise one child row per child, in order, tagged with the parent's id.
\<close>

fun flatten_spec :: "resource_group list \<Rightarrow> row list" where
  "flatten_spec [] = []"
| "flatten_spec (g # gs) =
     (if expanded g then ParentRow g # map (\<lambda>c. ChildRow c (id_res g)) (children g)
      else [ParentRow g]) @ flatten_spec gs"

section \<open>Selection state (components/VirtualizedScheduler.jsx)\<close>

text \<open>
  The React state and refs of the component. \<^verbatim>\<open>setTimeout(() => setModalOpen(true), 80)\<close>
  is a pending callback: \<open>pendingTimeouts\<close> counts the callbacks scheduled and not
  yet run, and \<open>timeoutFires\<close> runs one.
\<close>

record scheduler_state =
  searchTerm :: string
  selectedBookingId :: string
  selection :: "selection option"
  selectedBooking :: "booking option"
  isSelecting :: bool
  modalOpen :: bool
  mouseDownRef :: bool
  startDateRef :: "day option"
  startResourceIdRef :: "string option"
  pendingTimeouts :: nat

definition handleCellMouseDown :: "day \<Rightarrow> string \<Rightarrow> scheduler_state \<Rightarrow> scheduler_state" where
  "handleCellMouseDown date resId s =
     s\<lparr>mouseDownRef := True, startDateRef := Some date, startResourceIdRef := Some resId,
       isSelecting := True,
       selection := Some \<lparr>resourceId = resId, startDate = date, endDate = date\<rparr>\<rparr>"

definition handleCellMouseEnter :: "day \<Rightarrow> string \<Rightarrow> scheduler_state \<Rightarrow> scheduler_state" where
  "handleCellMouseEnter date resId s =
     (if \<not> mouseDownRef s \<or> \<not> isSelecting s then s
      else if Some resId \<noteq> startResourceIdRef s then s
      else s\<lparr>selection :=
               (case selection s of Some prev \<Rightarrow> Some (prev\<lparr>endDate := date\<rparr>) | None \<Rightarrow> None)\<rparr>)"

definition onMouseUp :: "day list \<Rightarrow> scheduler_state \<Rightarrow> scheduler_state" where
  "onMouseUp dates s =
     (if \<not> mouseDownRef s \<or> selection s = None then s
      else
        (case selection s of
           None \<Rightarrow> s
         | Some sel \<Rightarrow>
             (let startIdx = getDateIndex (startDate sel) dates;
                  endIdx = getDateIndex (endDate sel) dates
              in s\<lparr>mouseDownRef := False, isSelecting := False,
                    selection := Some (sel\<lparr>
                      startDate := (if startIdx \<le> endIdx then startDate sel else endDate sel),
                      endDate := (if startIdx \<le> endIdx then endDate sel else startDate sel)\<rparr>),
                    pendingTimeouts := Suc (pendingTimeouts s)\<rparr>)))"

definition timeoutFires :: "scheduler_state \<Rightarrow> scheduler_state" where
  "timeoutFires s =
     (if pendingTimeouts s = 0 then s
      else s\<lparr>modalOpen := True, pendingTimeouts := pendingTimeouts s - 1\<rparr>)"

definition setSearchTerm :: "string \<Rightarrow> scheduler_state \<Rightarrow> scheduler_state" where
  "setSearchTerm v s = s\<lparr>searchTerm := v\<rparr>"

definition setSelectedBookingId :: "string \<Rightarrow> scheduler_state \<Rightarrow> scheduler_state" where
  "setSelectedBookingId v s = s\<lparr>selectedBookingId := v\<rparr>"

definition onClearFilters :: "scheduler_state \<Rightarrow> scheduler_state" where
  "onClearFilters s = setSelectedBookingId [] (setSearchTerm [] s)"

text \<open>The memoised row list of a render: the props and the two filter strings of the state.\<close>

definition renderedRows :: "resource_group list \<Rightarrow> booking list \<Rightarrow> scheduler_state \<Rightarrow> row list" where
  "renderedRows resources bookings s =
     visibleRows resources bookings (searchTerm s) (selectedBookingId s)"

section \<open>Drag relocation (the scheduler with drag and drop, unnamed source file part_001)\<close>

record dragState =
  isDragging :: bool
  draggedBooking :: "booking option"
  dragOffset :: "int \<times> int"
  dropTarget :: "(day \<times> string) option"

text \<open>
  The object that \<^verbatim>\<open>handleBookingDragEnd\<close> reports (\<^verbatim>\<open>'Booking moved:', { from, to }\<close>):
  the dragged booking and \<^verbatim>\<open>{ resourceId, startDate, endDate }\<close> of its new place.
\<close>

record booking_moved =
  moved_from :: booking
  moved_to :: selection

text \<open>\<^verbatim>\<open>Math.ceil(a / b)\<close> for a positive divisor.\<close>

definition math_ceil_div :: "int \<Rightarrow> int \<Rightarrow> int" where
  "math_ceil_div a b = - ((- a) div b)"

text \<open>
  \<^verbatim>\<open>handleBookingDragEnd\<close> (part_001, lines 188-218): the report, if any, and the
  next drag state. A day key is a non-empty string, hence truthy; the resource id
  is truthy when it is not empty.
\<close>

definition handleBookingDragEnd ::
    "day \<Rightarrow> string \<Rightarrow> dragState \<Rightarrow> booking_moved option \<times> dragState" where
  "handleBookingDragEnd targetDate targetResourceId ds =
     (if \<not> isDragging ds \<or> draggedBooking ds = None then (None, ds)
      else
        (case draggedBooking ds of
           None \<Rightarrow> (None, ds)
         | Some b \<Rightarrow>
             (let report =
                    (if targetResourceId \<noteq> [] then
                       (let duration =
                              math_ceil_div (getTime (endDate b) - getTime (startDate b))
                                (1000 * 60 * 60 * 24);
                            newStartDate = targetDate;
                            newEndDate =
                              toISODate (getTime targetDate + duration * 24 * 60 * 60 * 1000)
                        in Some \<lparr>moved_from = b,
                                  moved_to = \<lparr>resourceId = targetResourceId,
                                               startDate = newStartDate,
                                               endDate = newEndDate\<rparr>\<rparr>)
                     else None)
              in (report,
                  \<lparr>isDragging = False, draggedBooking = None, dragOffset = (0, 0),
                   dropTarget = None\<rparr>))))"

section \<open>Facts about the timeline\<close>

lemma generateDateRange_loop_eq:
  "generateDateRange_loop i days start dates = dates @ map (\<lambda>k. start + int k) [i..<days]"
proof (induction i days start dates rule: generateDateRange_loop.induct)
  case (1 i days start dates)
  show ?case
  proof (cases "i < days")
    case True
    with "1" show ?thesis
      by (subst generateDateRange_loop.simps) (simp add: upt_rec [of i days])
  next
    case False
    then show ?thesis
      by (subst generateDateRange_loop.simps) simp
  qed
qed

lemma generateDateRange_eq:
  "generateDateRange days start = map (\<lambda>k. start + int k) [0..<days]"
  by (simp add: generateDateRange_def generateDateRange_loop_eq)

lemma length_generateDateRange [simp]: "length (generateDateRange days start) = days"
  by (simp add: generateDateRange_eq)

lemma nth_generateDateRange [simp]:
  "k < days \<Longrightarrow> generateDateRange days start ! k = start + int k"
  by (simp add: generateDateRange_eq)

lemma findIndex_ge: "- 1 \<le> findIndex P xs"
  by (induction xs) (auto simp: Let_def)

lemma findIndex_less: "findIndex P xs < int (length xs)"
  by (induction xs) (auto simp: Let_def)

lemma findIndex_append:
  "findIndex P (xs @ ys) =
     (if findIndex P xs \<noteq> - 1 then findIndex P xs
      else if findIndex P ys = - 1 then - 1 else int (length xs) + findIndex P ys)"
proof (induction xs)
  case Nil
  then show ?case by simp
next
  case (Cons x xs)
  have "- 1 \<le> findIndex P xs" "- 1 \<le> findIndex P ys"
    by (rule findIndex_ge)+
  with Cons show ?case
    by (auto simp: Let_def)
qed

lemma findIndex_window:
  "findIndex (\<lambda>x. x = d) (map (\<lambda>k. start + int k) [0..<n]) =
     (if start \<le> d \<and> d < start + int n then d - start else - 1)"
  by (induction n) (auto simp: findIndex_append)

lemma getDateIndex_generateDateRange:
  "getDateIndex d (generateDateRange n start) =
     (if start \<le> d \<and> d < start + int n then d - start else - 1)"
  by (simp add: getDateIndex_def generateDateRange_eq findIndex_window)

lemma indexOf_generateDateRange:
  "indexOf (generateDateRange n start) d =
     (if start \<le> d \<and> d < start + int n then d - start else - 1)"
  by (simp add: indexOf_def generateDateRange_eq findIndex_window)

lemma at_index_generateDateRange:
  "at_index (generateDateRange n start) i =
     (if 0 \<le> i \<and> i < int n then Some (start + i) else None)"
  by (auto simp: at_index_def nat_less_iff)

lemma gridDisplayEndDate_eq: "gridDisplayEndDate b = endDate b - 1"
proof -
  have "getTime (endDate b) - 24 * 60 * 60 * 1000 = (endDate b - 1) * msPerDay"
    by (simp add: getTime_def msPerDay_def algebra_simps)
  then show ?thesis
    by (simp add: gridDisplayEndDate_def toISODate_def msPerDay_def)
qed

section \<open>Facts about strings\<close>

text \<open>
  \<open>includes_js\<close> is the contiguous-substring test of \<^verbatim>\<open>String.prototype.includes\<close>.
\<close>

lemma startsWith_iff: "startsWith s sub \<longleftrightarrow> (\<exists>q. s = sub @ q)"
  by (induction s sub rule: startsWith.induct) auto

lemma includes_js_iff: "includes_js s sub \<longleftrightarrow> (\<exists>p q. s = p @ sub @ q)"
proof (induction s)
  case Nil
  then show ?case by auto
next
  case (Cons x xs)
  show ?case
  proof
    assume "includes_js (x # xs) sub"
    then consider "startsWith (x # xs) sub" | "includes_js xs sub" by auto
    then show "\<exists>p q. x # xs = p @ sub @ q"
    proof cases
      case 1
      then obtain q where "x # xs = sub @ q" by (auto simp: startsWith_iff)
      then have "x # xs = [] @ sub @ q" by simp
      then show ?thesis by blast
    next
      case 2
      with Cons obtain p q where "xs = p @ sub @ q" by auto
      then have "x # xs = (x # p) @ sub @ q" by simp
      then show ?thesis by blast
    qed
  next
    assume "\<exists>p q. x # xs = p @ sub @ q"
    then obtain p q where pq: "x # xs = p @ sub @ q" by blast
    show "includes_js (x # xs) sub"
    proof (cases p)
      case Nil
      with pq have "startsWith (x # xs) sub" by (auto simp: startsWith_iff)
      then show ?thesis by simp
    next
      case (Cons y ys)
      with pq have "xs = ys @ sub @ q" by simp
      with Cons.IH have "includes_js xs sub" by blast
      then show ?thesis by simp
    qed
  qed
qed

section \<open>The layout on a window of consecutive days\<close>

text \<open>
  On the window \<open>generateDateRange n d0\<close> (the days \<open>d0, ..., d0 + n - 1\<close>) the
  index lookups have a closed form, and so has each layout function: \<open>sIn\<close> and
  \<open>eIn\<close> say that the start day and the looked-up end day lie in the window.
\<close>

lemma BookingBlock_window:
  "BookingBlock (generateDateRange n d0) cw b =
     (let s = startDate b; e = endDate b - 1;
          sIn = (d0 \<le> s \<and> s < d0 + int n); eIn = (d0 \<le> e \<and> e < d0 + int n)
      in if sIn \<or> eIn \<or> (n > 0 \<and> s < d0 \<and> e > d0 + int n - 1) then
           Some \<lparr>visibleStartIndex = (if sIn then s - d0 else 0),
                 visibleEndIndex = (if eIn then e - d0 else int n - 1),
                 left = (if sIn then s - d0 else 0) * cw,
                 span = (if eIn then e - d0 else int n - 1) - (if sIn then s - d0 else 0) + 1,
                 width = ((if eIn then e - d0 else int n - 1) - (if sIn then s - d0 else 0) + 1) * cw\<rparr>
         else None)"
  by (auto simp: BookingBlock_def Let_def getDateIndex_generateDateRange
      at_index_generateDateRange dayjs_subtract_day_def)

lemma bookingOverlapsRange_window:
  "bookingOverlapsRange (generateDateRange n d0) b =
     (let s = startDate b; e = endDate b - 1;
          sIn = (d0 \<le> s \<and> s < d0 + int n); eIn = (d0 \<le> e \<and> e < d0 + int n)
      in sIn \<or> eIn \<or> (n > 0 \<and> s < d0 \<and> e > d0 + int n - 1))"
  by (auto simp: bookingOverlapsRange_def Let_def indexOf_generateDateRange
      at_index_generateDateRange gridDisplayEndDate_eq)

lemma GridBookingCell_window:
  "GridBookingCell (generateDateRange n d0) cw b =
     (let s = startDate b; e = endDate b - 1;
          sIn = (d0 \<le> s \<and> s < d0 + int n); eIn = (d0 \<le> e \<and> e < d0 + int n)
      in if sIn \<or> eIn \<or> (n > 0 \<and> s < d0 \<and> e > d0 + int n - 1) then
           Some \<lparr>visibleStartIdx = (if sIn then s - d0 else 0),
                 visibleEndIdx = (if eIn then e - d0 else int n - 1),
                 duration = (if eIn then e - d0 else int n - 1) - (if sIn then s - d0 else 0) + 1,
                 width_grid = ((if eIn then e - d0 else int n - 1) - (if sIn then s - d0 else 0) + 1) * cw\<rparr>
         else None)"
  by (auto simp: GridBookingCell_def bookingOverlapsRange_window Let_def indexOf_generateDateRange
      gridDisplayEndDate_eq)

lemma BookingBlock_legacy_window:
  "BookingBlock_legacy (generateDateRange n d0) cw b =
     (let s = startDate b; e = endDate b;
          sIn = (d0 \<le> s \<and> s < d0 + int n); eIn = (d0 \<le> e \<and> e < d0 + int n)
      in if sIn \<or> eIn then
           Some \<lparr>visibleStartIndex = (if sIn then s - d0 else 0),
                 visibleEndIndex = (if eIn then e - d0 else - 1),
                 left = (if sIn then s - d0 else 0) * cw,
                 span = (if eIn then e - d0 else - 1) - (if sIn then s - d0 else 0) + 1,
                 width = ((if eIn then e - d0 else - 1) - (if sIn then s - d0 else 0) + 1) * cw\<rparr>
         else None)"
  by (auto simp: BookingBlock_legacy_def Let_def getDateIndex_generateDateRange)

lemma cellRenderer_bookings_window:
  "b \<in> set (cellRenderer_bookings (generateDateRange n d0) bookings rowId col) \<longleftrightarrow>
     b \<in> set bookings \<and> resourceId b = rowId \<and> bookingOverlapsRange (generateDateRange n d0) b \<and>
     at_index (generateDateRange n d0)
       (if d0 \<le> startDate b \<and> startDate b < d0 + int n then startDate b - d0 else 0) =
     at_index (generateDateRange n d0) col"
  by (auto simp: cellRenderer_bookings_def Let_def indexOf_generateDateRange)

subsection \<open>Layout clipping\<close>

text \<open>
  Claim C1 (layout clipping correctness). On every window of 30 consecutive days
  \<open>D0, ..., D29\<close>, a booking with \<open>startDate = D0\<close> and \<open>endDate = D5\<close> is laid out
  on the columns 0 to 4: \<^verbatim>\<open>BookingBlock\<close> returns start index 0, end index 4 and a
  span of 5 columns, \<^verbatim>\<open>GridBookingCell\<close> computes the same indices and a duration of
  5, and \<^verbatim>\<open>cellRenderer\<close> draws the booking in the cell of column 0 of its row and
  in no other cell. The end index is 4, so column 5 (the checkout day) is outside
  the span.
\<close>

theorem layout_clipping_checkout_excluded:
  assumes "startDate b = d0" and "endDate b = d0 + 5"
  shows "BookingBlock (generateDateRange 30 d0) cw b =
           Some \<lparr>visibleStartIndex = 0, visibleEndIndex = 4, left = 0, span = 5, width = 5 * cw\<rparr>
       \<and> GridBookingCell (generateDateRange 30 d0) cw b =
           Some \<lparr>visibleStartIdx = 0, visibleEndIdx = 4, duration = 5, width_grid = 5 * cw\<rparr>
       \<and> (b \<in> set bookings \<longrightarrow>
            (b \<in> set (cellRenderer_bookings (generateDateRange 30 d0) bookings (resourceId b) col)
               \<longleftrightarrow> col = 0))"
proof -
  have 1: "BookingBlock (generateDateRange 30 d0) cw b =
      Some \<lparr>visibleStartIndex = 0, visibleEndIndex = 4, left = 0, span = 5, width = 5 * cw\<rparr>"
    using assms by (simp add: BookingBlock_window)
  have 2: "GridBookingCell (generateDateRange 30 d0) cw b =
      Some \<lparr>visibleStartIdx = 0, visibleEndIdx = 4, duration = 5, width_grid = 5 * cw\<rparr>"
    using assms by (simp add: GridBookingCell_window)
  have 3: "b \<in> set bookings \<longrightarrow>
      (b \<in> set (cellRenderer_bookings (generateDateRange 30 d0) bookings (resourceId b) col)
         \<longleftrightarrow> col = 0)"
    using assms
    by (auto simp: cellRenderer_bookings_window bookingOverlapsRange_window
        at_index_generateDateRange split: if_splits)
  from 1 2 3 show ?thesis by blast
qed

theorem layout_clipping_checkout_excluded_witness:
  "startDate \<lparr>resourceId = ''R1'', startDate = 20000, endDate = 20005, id_bk = ''b1'', booking_id = 1\<rparr> = 20000
   \<and> endDate \<lparr>resourceId = ''R1'', startDate = 20000, endDate = 20005, id_bk = ''b1'', booking_id = 1\<rparr> = 20000 + 5
   \<and> BookingBlock (generateDateRange 30 20000) 100
        \<lparr>resourceId = ''R1'', startDate = 20000, endDate = 20005, id_bk = ''b1'', booking_id = 1\<rparr> =
        Some \<lparr>visibleStartIndex = 0, visibleEndIndex = 4, left = 0, span = 5, width = 500\<rparr>
   \<and> GridBookingCell (generateDateRange 30 20000) 100
        \<lparr>resourceId = ''R1'', startDate = 20000, endDate = 20005, id_bk = ''b1'', booking_id = 1\<rparr> =
        Some \<lparr>visibleStartIdx = 0, visibleEndIdx = 4, duration = 5, width_grid = 500\<rparr>
   \<and> \<lparr>resourceId = ''R1'', startDate = 20000, endDate = 20005, id_bk = ''b1'', booking_id = 1\<rparr>
        \<in> set (cellRenderer_bookings (generateDateRange 30 20000)
             [\<lparr>resourceId = ''R1'', startDate = 20000, endDate = 20005, id_bk = ''b1'', booking_id = 1\<rparr>]
             ''R1'' 0)"
  using layout_clipping_checkout_excluded
    [of "\<lparr>resourceId = ''R1'', startDate = 20000, endDate = 20005, id_bk = ''b1'', booking_id = 1\<rparr>"
        20000 100
        "[\<lparr>resourceId = ''R1'', startDate = 20000, endDate = 20005, id_bk = ''b1'', booking_id = 1\<rparr>]"
        0]
  by simp

subsection \<open>A booking that spans the whole window\<close>

text \<open>
  Claim C3 (spans-entire-window visibility). On every window \<open>D0, ..., D29\<close>, a
  booking that starts before \<open>D0\<close> and whose \<open>endDate\<close> is after \<open>D29\<close> is visible and
  its clipped span is the columns 0 to 29, in \<^verbatim>\<open>BookingBlock\<close> and on the grid path.
  The last occupied day \<open>endDate - 1\<close> is \<open>D29\<close> or later: when \<open>endDate = D30\<close> it is
  \<open>D29\<close> itself, found in the window at index 29, and the span is the same.
\<close>

theorem spans_entire_window_visible:
  assumes "startDate b < d0" and "d0 + 29 < endDate b"
  shows "BookingBlock (generateDateRange 30 d0) cw b =
           Some \<lparr>visibleStartIndex = 0, visibleEndIndex = 29, left = 0, span = 30, width = 30 * cw\<rparr>
       \<and> GridBookingCell (generateDateRange 30 d0) cw b =
           Some \<lparr>visibleStartIdx = 0, visibleEndIdx = 29, duration = 30, width_grid = 30 * cw\<rparr>
       \<and> (b \<in> set bookings \<longrightarrow>
            (b \<in> set (cellRenderer_bookings (generateDateRange 30 d0) bookings (resourceId b) col)
               \<longleftrightarrow> col = 0))"
proof -
  have 1: "BookingBlock (generateDateRange 30 d0) cw b =
      Some \<lparr>visibleStartIndex = 0, visibleEndIndex = 29, left = 0, span = 30, width = 30 * cw\<rparr>"
    using assms by (auto simp: BookingBlock_window Let_def)
  have 2: "GridBookingCell (generateDateRange 30 d0) cw b =
      Some \<lparr>visibleStartIdx = 0, visibleEndIdx = 29, duration = 30, width_grid = 30 * cw\<rparr>"
    using assms by (auto simp: GridBookingCell_window Let_def)
  have 3: "b \<in> set bookings \<longrightarrow>
      (b \<in> set (cellRenderer_bookings (generateDateRange 30 d0) bookings (resourceId b) col)
         \<longleftrightarrow> col = 0)"
    using assms
    by (auto simp: cellRenderer_bookings_window bookingOverlapsRange_window
        at_index_generateDateRange split: if_splits)
  from 1 2 3 show ?thesis by blast
qed

theorem spans_entire_window_visible_witness:
  "startDate \<lparr>resourceId = ''R1'', startDate = 19990, endDate = 20030, id_bk = ''b1'', booking_id = 1\<rparr> < 20000
   \<and> 20000 + 29 < endDate \<lparr>resourceId = ''R1'', startDate = 19990, endDate = 20030, id_bk = ''b1'', booking_id = 1\<rparr>
   \<and> BookingBlock (generateDateRange 30 20000) 100
        \<lparr>resourceId = ''R1'', startDate = 19990, endDate = 20030, id_bk = ''b1'', booking_id = 1\<rparr> =
        Some \<lparr>visibleStartIndex = 0, visibleEndIndex = 29, left = 0, span = 30, width = 3000\<rparr>
   \<and> GridBookingCell (generateDateRange 30 20000) 100
        \<lparr>resourceId = ''R1'', startDate = 19990, endDate = 20030, id_bk = ''b1'', booking_id = 1\<rparr> =
        Some \<lparr>visibleStartIdx = 0, visibleEndIdx = 29, duration = 30, width_grid = 3000\<rparr>
   \<and> \<lparr>resourceId = ''R1'', startDate = 19990, endDate = 20030, id_bk = ''b1'', booking_id = 1\<rparr>
        \<in> set (cellRenderer_bookings (generateDateRange 30 20000)
             [\<lparr>resourceId = ''R1'', startDate = 19990, endDate = 20030, id_bk = ''b1'', booking_id = 1\<rparr>]
             ''R1'' 0)"
  using spans_entire_window_visible
    [of "\<lparr>resourceId = ''R1'', startDate = 19990, endDate = 20030, id_bk = ''b1'', booking_id = 1\<rparr>"
        20000 100
        "[\<lparr>resourceId = ''R1'', startDate = 19990, endDate = 20030, id_bk = ''b1'', booking_id = 1\<rparr>]"
        0]
  by simp

subsection \<open>The checkout day\<close>

text \<open>
  The current \<^verbatim>\<open>BookingBlock\<close> and the grid path never cover a column whose day is
  the checkout day or later: every covered column \<open>c\<close> is a column of the window and
  its day \<open>d0 + c\<close> is before \<open>endDate\<close>.
\<close>

lemma BookingBlock_never_on_checkout_day:
  assumes "startDate b < endDate b"
    and "BookingBlock (generateDateRange n d0) cw b = Some l"
    and "visibleStartIndex l \<le> c" and "c \<le> visibleEndIndex l"
  shows "at_index (generateDateRange n d0) c = Some (d0 + c) \<and> d0 + c < endDate b"
  using assms
  by (auto simp: BookingBlock_window at_index_generateDateRange Let_def split: if_splits)

lemma GridBookingCell_never_on_checkout_day:
  assumes "startDate b < endDate b"
    and "GridBookingCell (generateDateRange n d0) cw b = Some l"
    and "visibleStartIdx l \<le> c" and "c \<le> visibleEndIdx l"
  shows "at_index (generateDateRange n d0) c = Some (d0 + c) \<and> d0 + c < endDate b"
  using assms
  by (auto simp: GridBookingCell_window at_index_generateDateRange Let_def split: if_splits)

text \<open>
  Claim C2 (checkout-day-exclusive rendering, every rendering path). The earlier
  \<^verbatim>\<open>BookingBlock\<close> breaks it: on the window that starts on day 20000 (2024-10-04),
  for the booking from day 20000 to the checkout day 20005, it returns the span 0
  to 5, six columns, and column 5 is the checkout day itself. The current
  \<^verbatim>\<open>BookingBlock\<close> returns the span 0 to 4 for the same booking.
\<close>

theorem legacy_block_covers_checkout_day:
  "BookingBlock_legacy (generateDateRange 30 20000) 100
     \<lparr>resourceId = ''R1'', startDate = 20000, endDate = 20005, id_bk = ''b1'', booking_id = 1\<rparr> =
     Some \<lparr>visibleStartIndex = 0, visibleEndIndex = 5, left = 0, span = 6, width = 600\<rparr>
   \<and> at_index (generateDateRange 30 20000) 5 =
       Some (endDate \<lparr>resourceId = ''R1'', startDate = 20000, endDate = 20005, id_bk = ''b1'', booking_id = 1\<rparr>)
   \<and> BookingBlock (generateDateRange 30 20000) 100
     \<lparr>resourceId = ''R1'', startDate = 20000, endDate = 20005, id_bk = ''b1'', booking_id = 1\<rparr> =
     Some \<lparr>visibleStartIndex = 0, visibleEndIndex = 4, left = 0, span = 5, width = 500\<rparr>"
  by (simp add: BookingBlock_legacy_window BookingBlock_window at_index_generateDateRange)

theorem legacy_block_covers_checkout_day_witness:
  "map_option span (BookingBlock_legacy (generateDateRange 30 20000) 100
     \<lparr>resourceId = ''R1'', startDate = 20000, endDate = 20005, id_bk = ''b1'', booking_id = 1\<rparr>) =
     Some 6
   \<and> map_option span (BookingBlock (generateDateRange 30 20000) 100
     \<lparr>resourceId = ''R1'', startDate = 20000, endDate = 20005, id_bk = ''b1'', booking_id = 1\<rparr>) =
     Some 5"
  using legacy_block_covers_checkout_day by simp

subsection \<open>Bookings outside the window\<close>

text \<open>
  A booking with \<open>startDate < endDate\<close> that ends on or before the first day of the
  window, or starts after its last day, is invisible for the current
  \<^verbatim>\<open>BookingBlock\<close>, for \<^verbatim>\<open>GridBookingCell\<close>, and for every cell of \<^verbatim>\<open>cellRenderer\<close>.
\<close>

lemma off_window_invisible:
  assumes "startDate b < endDate b"
    and "endDate b \<le> d0 \<or> d0 + int n - 1 < startDate b"
  shows "BookingBlock (generateDateRange n d0) cw b = None"
    and "GridBookingCell (generateDateRange n d0) cw b = None"
    and "b \<notin> set (cellRenderer_bookings (generateDateRange n d0) bookings rowId col)"
  using assms
  by (auto simp: BookingBlock_window GridBookingCell_window cellRenderer_bookings_window
      bookingOverlapsRange_window Let_def)

text \<open>
  Claim C4 (off-window invisibility, in every rendering path). The earlier
  \<^verbatim>\<open>BookingBlock\<close> breaks it when the checkout day is the first day of the window:
  the booking from day 19998 to the checkout day 20000 has \<open>endDate \<le> D0\<close>, and on
  the window that starts on day 20000 the earlier \<^verbatim>\<open>BookingBlock\<close> draws it on column
  0 with a span of one column. The current \<^verbatim>\<open>BookingBlock\<close> returns nothing for it.
\<close>

theorem legacy_block_visible_when_checkout_is_first_day:
  "BookingBlock_legacy (generateDateRange 30 20000) 100
     \<lparr>resourceId = ''R1'', startDate = 19998, endDate = 20000, id_bk = ''b1'', booking_id = 1\<rparr> =
     Some \<lparr>visibleStartIndex = 0, visibleEndIndex = 0, left = 0, span = 1, width = 100\<rparr>
   \<and> BookingBlock (generateDateRange 30 20000) 100
     \<lparr>resourceId = ''R1'', startDate = 19998, endDate = 20000, id_bk = ''b1'', booking_id = 1\<rparr> = None"
  by (simp add: BookingBlock_legacy_window BookingBlock_window)

theorem legacy_block_visible_when_checkout_is_first_day_witness:
  "map_option span (BookingBlock_legacy (generateDateRange 30 20000) 100
     \<lparr>resourceId = ''R1'', startDate = 19998, endDate = 20000, id_bk = ''b1'', booking_id = 1\<rparr>) =
     Some 1
   \<and> map_option span (BookingBlock (generateDateRange 30 20000) 100
     \<lparr>resourceId = ''R1'', startDate = 19998, endDate = 20000, id_bk = ''b1'', booking_id = 1\<rparr>) =
     None"
  using legacy_block_visible_when_checkout_is_first_day by simp

section \<open>The flattened row list\<close>

lemma visibleRows_no_filters: "visibleRows rs bs [] [] = flatten_spec rs"
  by (induction rs) (simp_all add: visibleRows_def)

lemma visibleRows_append:
  "visibleRows (pre @ post) bs t bid = visibleRows pre bs t bid @ visibleRows post bs t bid"
  by (simp add: visibleRows_def Let_def)

lemma visibleRows_single_search:
  assumes "t \<noteq> []" and "includes_js (toLowerCase (name g)) (toLowerCase t)" and "expanded g"
  shows "visibleRows [g] bs t [] =
           ParentRow g # map (\<lambda>c. ChildRow c (id_res g))
             (filter (\<lambda>c. includes_js (toLowerCase (name c)) (toLowerCase t)) (children g))"
  using assms by (simp add: visibleRows_def Let_def)

subsection \<open>Search by group name\<close>

text \<open>
  Claim C5 (search-term filter, group-name passthrough), as the code has it. With a
  non-empty search term and no booking-ID filter, a group whose name contains the
  term (case-insensitively) and which is expanded contributes its parent row
  followed by exactly those of its children whose names contain the term
  (case-insensitively), in their original order; the rows of the groups before
  and after it are unchanged. A child whose name does not contain the term gets
  no row, also when the name of its group matches.
\<close>

theorem search_term_keeps_only_matching_children:
  assumes "t \<noteq> []" and "includes_js (toLowerCase (name g)) (toLowerCase t)" and "expanded g"
  shows "visibleRows (pre @ g # post) bookings t [] =
           visibleRows pre bookings t [] @
           (ParentRow g # map (\<lambda>c. ChildRow c (id_res g))
              (filter (\<lambda>c. includes_js (toLowerCase (name c)) (toLowerCase t)) (children g))) @
           visibleRows post bookings t []"
proof -
  have "visibleRows (pre @ g # post) bookings t [] =
      visibleRows pre bookings t [] @ visibleRows [g] bookings t [] @ visibleRows post bookings t []"
    using visibleRows_append [of pre "[g] @ post" bookings t "[]"]
      visibleRows_append [of "[g]" post bookings t "[]"] by simp
  then show ?thesis
    by (simp only: visibleRows_single_search [OF assms])
qed

theorem search_term_keeps_only_matching_children_witness:
  "''alpha'' \<noteq> []
   \<and> includes_js (toLowerCase ''Alpha Block'') (toLowerCase ''alpha'')
   \<and> visibleRows
       ([] @ \<lparr>id_res = ''G1'', name = ''Alpha Block'', expanded = True,
          children = [\<lparr>id_res = ''R1'', name = ''Room 1''\<rparr>, \<lparr>id_res = ''R2'', name = ''Alpha Suite''\<rparr>]\<rparr>
        # []) [] ''alpha'' [] =
     [ParentRow \<lparr>id_res = ''G1'', name = ''Alpha Block'', expanded = True,
          children = [\<lparr>id_res = ''R1'', name = ''Room 1''\<rparr>, \<lparr>id_res = ''R2'', name = ''Alpha Suite''\<rparr>]\<rparr>,
      ChildRow \<lparr>id_res = ''R2'', name = ''Alpha Suite''\<rparr> ''G1'']"
  using search_term_keeps_only_matching_children
    [of "''alpha''"
      "\<lparr>id_res = ''G1'', name = ''Alpha Block'', expanded = True,
          children = [\<lparr>id_res = ''R1'', name = ''Room 1''\<rparr>, \<lparr>id_res = ''R2'', name = ''Alpha Suite''\<rparr>]\<rparr>"
      "[]" "[]" "[]"]
  by (simp add: toLowerCase_def lowerChar_def visibleRows_def)

text \<open>
  The claim as it is written (all children of a group whose name matches appear)
  fails: the group \<^verbatim>\<open>Alpha Block\<close> is expanded and its name contains \<^verbatim>\<open>alpha\<close>, and
  its child \<^verbatim>\<open>Room 1\<close> has no row in the list filtered by \<^verbatim>\<open>alpha\<close>.
\<close>

theorem group_name_match_children_counterexample:
  "includes_js (toLowerCase ''Alpha Block'') (toLowerCase ''alpha'')
   \<and> expanded \<lparr>id_res = ''G1'', name = ''Alpha Block'', expanded = True,
          children = [\<lparr>id_res = ''R1'', name = ''Room 1''\<rparr>, \<lparr>id_res = ''R2'', name = ''Alpha Suite''\<rparr>]\<rparr>
   \<and> \<lparr>id_res = ''R1'', name = ''Room 1''\<rparr> \<in> set (children
        \<lparr>id_res = ''G1'', name = ''Alpha Block'', expanded = True,
          children = [\<lparr>id_res = ''R1'', name = ''Room 1''\<rparr>, \<lparr>id_res = ''R2'', name = ''Alpha Suite''\<rparr>]\<rparr>)
   \<and> ChildRow \<lparr>id_res = ''R1'', name = ''Room 1''\<rparr> ''G1'' \<notin> set (visibleRows
        [\<lparr>id_res = ''G1'', name = ''Alpha Block'', expanded = True,
          children = [\<lparr>id_res = ''R1'', name = ''Room 1''\<rparr>, \<lparr>id_res = ''R2'', name = ''Alpha Suite''\<rparr>]\<rparr>]
        [] ''alpha'' [])
   \<and> visibleRows
        [\<lparr>id_res = ''G1'', name = ''Alpha Block'', expanded = True,
          children = [\<lparr>id_res = ''R1'', name = ''Room 1''\<rparr>, \<lparr>id_res = ''R2'', name = ''Alpha Suite''\<rparr>]\<rparr>]
        [] ''alpha'' [] =
     [ParentRow \<lparr>id_res = ''G1'', name = ''Alpha Block'', expanded = True,
          children = [\<lparr>id_res = ''R1'', name = ''Room 1''\<rparr>, \<lparr>id_res = ''R2'', name = ''Alpha Suite''\<rparr>]\<rparr>,
      ChildRow \<lparr>id_res = ''R2'', name = ''Alpha Suite''\<rparr> ''G1'']"
  by (simp add: toLowerCase_def lowerChar_def visibleRows_def)

subsection \<open>Clearing the filters\<close>

text \<open>
  Claim C6 (filter round-trip identity). With both filter strings empty the row
  list is, element for element, the flattening \<open>flatten_spec\<close> of the resource tree
  that the component was given; so it is after \<^verbatim>\<open>onClearFilters\<close> in any state, in
  particular after a search term and a booking-ID filter were set. The filters
  compute new lists and leave the tree itself as it was.
\<close>

theorem filter_round_trip:
  "visibleRows resources bookings [] [] = flatten_spec resources
   \<and> renderedRows resources bookings (onClearFilters s) = flatten_spec resources
   \<and> renderedRows resources bookings
        (onClearFilters (setSelectedBookingId bid (setSearchTerm t s))) = flatten_spec resources"
  by (simp add: renderedRows_def onClearFilters_def setSelectedBookingId_def setSearchTerm_def
      visibleRows_no_filters)

theorem filter_round_trip_witness:
  "renderedRows
     [\<lparr>id_res = ''G1'', name = ''Alpha Block'', expanded = True,
        children = [\<lparr>id_res = ''R1'', name = ''Room 1''\<rparr>, \<lparr>id_res = ''R2'', name = ''Alpha Suite''\<rparr>]\<rparr>,
      \<lparr>id_res = ''G2'', name = ''Beta Block'', expanded = False,
        children = [\<lparr>id_res = ''R3'', name = ''Room 3''\<rparr>]\<rparr>]
     [\<lparr>resourceId = ''R1'', startDate = 20000, endDate = 20005, id_bk = ''b1'', booking_id = 71\<rparr>]
     (onClearFilters (setSelectedBookingId ''7'' (setSearchTerm ''alpha''
        \<lparr>searchTerm = [], selectedBookingId = [], selection = None, selectedBooking = None,
         isSelecting = False, modalOpen = False, mouseDownRef = False, startDateRef = None,
         startResourceIdRef = None, pendingTimeouts = 0\<rparr>))) =
   [ParentRow \<lparr>id_res = ''G1'', name = ''Alpha Block'', expanded = True,
        children = [\<lparr>id_res = ''R1'', name = ''Room 1''\<rparr>, \<lparr>id_res = ''R2'', name = ''Alpha Suite''\<rparr>]\<rparr>,
    ChildRow \<lparr>id_res = ''R1'', name = ''Room 1''\<rparr> ''G1'',
    ChildRow \<lparr>id_res = ''R2'', name = ''Alpha Suite''\<rparr> ''G1'',
    ParentRow \<lparr>id_res = ''G2'', name = ''Beta Block'', expanded = False,
        children = [\<lparr>id_res = ''R3'', name = ''Room 3''\<rparr>]\<rparr>]"
  using filter_round_trip
    [of "[\<lparr>id_res = ''G1'', name = ''Alpha Block'', expanded = True,
        children = [\<lparr>id_res = ''R1'', name = ''Room 1''\<rparr>, \<lparr>id_res = ''R2'', name = ''Alpha Suite''\<rparr>]\<rparr>,
      \<lparr>id_res = ''G2'', name = ''Beta Block'', expanded = False,
        children = [\<lparr>id_res = ''R3'', name = ''Room 3''\<rparr>]\<rparr>]"
      "[\<lparr>resourceId = ''R1'', startDate = 20000, endDate = 20005, id_bk = ''b1'', booking_id = 71\<rparr>]"
      "\<lparr>searchTerm = [], selectedBookingId = [], selection = None, selectedBooking = None,
         isSelecting = False, modalOpen = False, mouseDownRef = False, startDateRef = None,
         startResourceIdRef = None, pendingTimeouts = 0\<rparr>"
      "''7''" "''alpha''"]
  by simp

subsection \<open>The booking-ID filter\<close>











section \<open>Selection and drag\<close>

lemma set_generateDateRange:
  "d \<in> set (generateDateRange n d0) \<longleftrightarrow> d0 \<le> d \<and> d < d0 + int n"
proof
  assume "d \<in> set (generateDateRange n d0)"
  then show "d0 \<le> d \<and> d < d0 + int n"
    by (auto simp: generateDateRange_eq)
next
  assume h: "d0 \<le> d \<and> d < d0 + int n"
  then have "nat (d - d0) < n" by auto
  then have "generateDateRange n d0 ! nat (d - d0) \<in> set (generateDateRange n d0)"
    by (intro nth_mem) simp
  with h \<open>nat (d - d0) < n\<close> show "d \<in> set (generateDateRange n d0)" by simp
qed

lemma math_ceil_div_days: "math_ceil_div (getTime e - getTime s) 86400000 = e - s"
proof -
  have "- (getTime e - getTime s) = (s - e) * 86400000"
    by (simp add: getTime_def msPerDay_def algebra_simps)
  then show ?thesis
    by (simp add: math_ceil_div_def)
qed

lemma toISODate_add_days: "toISODate (getTime t + 86400000 * k) = t + k"
proof -
  have "getTime t + 86400000 * k = (t + k) * 86400000"
    by (simp add: getTime_def msPerDay_def algebra_simps)
  then show ?thesis
    by (simp add: toISODate_def msPerDay_def)
qed

subsection \<open>Pointer up\<close>

text \<open>
  Claim C7 (selection normalization). When the pointer goes up on an active
  selection whose two days are in the window, the new selection has
  \<open>startDate \<le> endDate\<close> and the same resource: it is the old selection when that
  was already in order, and the old one with its two days swapped otherwise. In
  particular pointer down on \<open>D10\<close>, a drag to \<open>D5\<close> on the same row and pointer up
  give \<open>startDate = D5\<close>, \<open>endDate = D10\<close>.
\<close>

theorem selection_normalized_on_pointer_up:
  assumes "mouseDownRef s" and "selection s = Some sel"
    and "startDate sel \<in> set (generateDateRange n d0)"
    and "endDate sel \<in> set (generateDateRange n d0)"
  shows "(\<exists>sel'. selection (onMouseUp (generateDateRange n d0) s) = Some sel'
            \<and> startDate sel' \<le> endDate sel'
            \<and> resourceId sel' = resourceId sel
            \<and> (if startDate sel \<le> endDate sel then sel' = sel
                else startDate sel' = endDate sel \<and> endDate sel' = startDate sel))
       \<and> selection (onMouseUp (generateDateRange 30 d0)
            (handleCellMouseEnter (d0 + 5) r (handleCellMouseDown (d0 + 10) r s0))) =
           Some \<lparr>resourceId = r, startDate = d0 + 5, endDate = d0 + 10\<rparr>"
proof -
  have general: "\<exists>sel'. selection (onMouseUp (generateDateRange n d0) s) = Some sel'
            \<and> startDate sel' \<le> endDate sel'
            \<and> resourceId sel' = resourceId sel
            \<and> (if startDate sel \<le> endDate sel then sel' = sel
                else startDate sel' = endDate sel \<and> endDate sel' = startDate sel)"
    using assms
    by (auto simp: onMouseUp_def Let_def getDateIndex_generateDateRange set_generateDateRange)
  have particular: "selection (onMouseUp (generateDateRange 30 d0)
            (handleCellMouseEnter (d0 + 5) r (handleCellMouseDown (d0 + 10) r s0))) =
           Some \<lparr>resourceId = r, startDate = d0 + 5, endDate = d0 + 10\<rparr>"
    by (simp add: onMouseUp_def handleCellMouseEnter_def handleCellMouseDown_def Let_def
        getDateIndex_generateDateRange)
  from general particular show ?thesis by blast
qed

theorem selection_normalized_on_pointer_up_witness:
  "mouseDownRef
     \<lparr>searchTerm = [], selectedBookingId = [],
      selection = Some \<lparr>resourceId = ''R1'', startDate = 20010, endDate = 20005\<rparr>,
      selectedBooking = None, isSelecting = True, modalOpen = False, mouseDownRef = True,
      startDateRef = Some 20010, startResourceIdRef = Some ''R1'', pendingTimeouts = 0\<rparr>
   \<and> startDate \<lparr>resourceId = ''R1'', startDate = 20010, endDate = 20005\<rparr>
        \<in> set (generateDateRange 30 20000)
   \<and> endDate \<lparr>resourceId = ''R1'', startDate = 20010, endDate = 20005\<rparr>
        \<in> set (generateDateRange 30 20000)
   \<and> selection (onMouseUp (generateDateRange 30 20000)
       \<lparr>searchTerm = [], selectedBookingId = [],
        selection = Some \<lparr>resourceId = ''R1'', startDate = 20010, endDate = 20005\<rparr>,
        selectedBooking = None, isSelecting = True, modalOpen = False, mouseDownRef = True,
        startDateRef = Some 20010, startResourceIdRef = Some ''R1'', pendingTimeouts = 0\<rparr>) =
     Some \<lparr>resourceId = ''R1'', startDate = 20005, endDate = 20010\<rparr>"
  using selection_normalized_on_pointer_up
    [of "\<lparr>searchTerm = [], selectedBookingId = [],
        selection = Some \<lparr>resourceId = ''R1'', startDate = 20010, endDate = 20005\<rparr>,
        selectedBooking = None, isSelecting = True, modalOpen = False, mouseDownRef = True,
        startDateRef = Some 20010, startResourceIdRef = Some ''R1'', pendingTimeouts = 0\<rparr>"
      "\<lparr>resourceId = ''R1'', startDate = 20010, endDate = 20005\<rparr>" 30 20000 "''R1''"
      "\<lparr>searchTerm = [], selectedBookingId = [], selection = None, selectedBooking = None,
        isSelecting = False, modalOpen = False, mouseDownRef = False, startDateRef = None,
        startResourceIdRef = None, pendingTimeouts = 0\<rparr>"]
  by (auto simp: set_generateDateRange)

text \<open>
  Claim C9 (a stray pointer up is a no-op). When no pointer down is recorded or
  the selection is null, \<^verbatim>\<open>onMouseUp\<close> returns the state as it is: the selection is
  unchanged, the modal is not opened and no opening is scheduled.
\<close>

theorem stray_pointer_up_is_noop:
  assumes "\<not> mouseDownRef s \<or> selection s = None"
  shows "onMouseUp dates s = s
       \<and> selection (onMouseUp dates s) = selection s
       \<and> modalOpen (onMouseUp dates s) = modalOpen s
       \<and> pendingTimeouts (onMouseUp dates s) = pendingTimeouts s"
  using assms by (auto simp: onMouseUp_def)

theorem stray_pointer_up_is_noop_witness:
  "selection
     \<lparr>searchTerm = [], selectedBookingId = [], selection = None, selectedBooking = None,
      isSelecting = False, modalOpen = False, mouseDownRef = True, startDateRef = None,
      startResourceIdRef = None, pendingTimeouts = 0\<rparr> = None
   \<and> onMouseUp (generateDateRange 30 20000)
     \<lparr>searchTerm = [], selectedBookingId = [], selection = None, selectedBooking = None,
      isSelecting = False, modalOpen = False, mouseDownRef = True, startDateRef = None,
      startResourceIdRef = None, pendingTimeouts = 0\<rparr> =
     \<lparr>searchTerm = [], selectedBookingId = [], selection = None, selectedBooking = None,
      isSelecting = False, modalOpen = False, mouseDownRef = True, startDateRef = None,
      startResourceIdRef = None, pendingTimeouts = 0\<rparr>"
  using stray_pointer_up_is_noop
    [of "\<lparr>searchTerm = [], selectedBookingId = [], selection = None, selectedBooking = None,
      isSelecting = False, modalOpen = False, mouseDownRef = True, startDateRef = None,
      startResourceIdRef = None, pendingTimeouts = 0\<rparr>" "generateDateRange 30 20000"]
  by simp

subsection \<open>Drag end\<close>

text \<open>
  Claim C8 (drag duration preservation). When a booking is being dragged and the
  drop target is resolved (a day and a non-empty resource id),
  \<^verbatim>\<open>handleBookingDragEnd\<close> reports the move to the target's resource with
  \<open>startDate\<close> the target's day and \<open>endDate\<close> that day plus \<open>endDate - startDate\<close> of the
  dragged booking. In particular the booking from \<open>D2\<close> to \<open>D5\<close> dropped on \<open>D9\<close> goes
  from \<open>D9\<close> to \<open>D12\<close>.
\<close>

theorem drag_preserves_duration:
  assumes "isDragging ds" and "draggedBooking ds = Some b" and "targetResourceId \<noteq> []"
  shows "fst (handleBookingDragEnd targetDate targetResourceId ds) =
           Some \<lparr>moved_from = b,
                 moved_to = \<lparr>resourceId = targetResourceId, startDate = targetDate,
                              endDate = targetDate + (endDate b - startDate b)\<rparr>\<rparr>
       \<and> (startDate b = d0 + 2 \<and> endDate b = d0 + 5 \<longrightarrow>
            fst (handleBookingDragEnd (d0 + 9) targetResourceId ds) =
              Some \<lparr>moved_from = b,
                    moved_to = \<lparr>resourceId = targetResourceId, startDate = d0 + 9,
                                 endDate = d0 + 12\<rparr>\<rparr>)"
  using assms
  by (simp add: handleBookingDragEnd_def Let_def math_ceil_div_days toISODate_add_days)

theorem drag_preserves_duration_witness:
  "isDragging
     \<lparr>isDragging = True,
      draggedBooking = Some \<lparr>resourceId = ''R1'', startDate = 20002, endDate = 20005,
                             id_bk = ''b1'', booking_id = 71\<rparr>,
      dragOffset = (0, 0), dropTarget = Some (20009, ''R2'')\<rparr>
   \<and> ''R2'' \<noteq> []
   \<and> fst (handleBookingDragEnd 20009 ''R2''
       \<lparr>isDragging = True,
        draggedBooking = Some \<lparr>resourceId = ''R1'', startDate = 20002, endDate = 20005,
                               id_bk = ''b1'', booking_id = 71\<rparr>,
        dragOffset = (0, 0), dropTarget = Some (20009, ''R2'')\<rparr>) =
     Some \<lparr>moved_from = \<lparr>resourceId = ''R1'', startDate = 20002, endDate = 20005,
                          id_bk = ''b1'', booking_id = 71\<rparr>,
           moved_to = \<lparr>resourceId = ''R2'', startDate = 20009, endDate = 20012\<rparr>\<rparr>"
  using drag_preserves_duration
    [of "\<lparr>isDragging = True,
        draggedBooking = Some \<lparr>resourceId = ''R1'', startDate = 20002, endDate = 20005,
                               id_bk = ''b1'', booking_id = 71\<rparr>,
        dragOffset = (0, 0), dropTarget = Some (20009, ''R2'')\<rparr>"
      "\<lparr>resourceId = ''R1'', startDate = 20002, endDate = 20005, id_bk = ''b1'', booking_id = 71\<rparr>"
      "''R2''" 20009 20000]
  by simp

end
